theory Spec2Isabelle
  imports Complex_Main
begin

section \<open>The payments service: \<open>services/payments/processor.go\<close>\<close>

subsection \<open>Request bodies and \<open>encoding/json\<close>\<close>

text \<open>
  The handler reads its request through \<open>json.NewDecoder(r.Body).Decode(&req)\<close>. The
  lexer of \<open>encoding/json\<close> is library code: a body is represented by the first JSON
  value the decoder reads from it, \<open>None\<close> when it reads none (an empty body, or a syntax
  error). A number keeps its literal text, as the library does until it stores the number
  into a field.
\<close>

datatype json =
    JNull
  | JBool bool
  | JNum string
  | JStr string
  | JArr "json list"
  | JObj "(string \<times> json) list"

type_synonym body = "json option"

text \<open>\<open>type PaymentRequest struct { OrderID string; Amount float64 }\<close>. The type \<open>'f\<close>
  stands for \<open>float64\<close>; its zero is the zero value of the field.\<close>

record 'f PaymentRequest =
  OrderID :: string
  Amount :: 'f

text \<open>\<open>type PaymentResponse struct { Status string; Message string }\<close>\<close>

record PaymentResponse =
  Status :: string
  Message :: string

datatype decode_error = SyntaxError | UnmarshalTypeError

text \<open>The zero value that \<open>var req PaymentRequest\<close> declares.\<close>

definition zero_request :: "('f::zero) PaymentRequest" where
  "zero_request = \<lparr>OrderID = [], Amount = 0\<rparr>"

text \<open>
  The library matches an object key with a struct field's JSON name without regard to
  letter case. Neither \<open>order_id\<close> nor \<open>amount\<close> has a letter with a fold partner outside
  ASCII, so folding the ASCII letters decides the match.
\<close>

definition lower :: "char \<Rightarrow> char" where
  "lower c =
     (case map_of (zip ''ABCDEFGHIJKLMNOPQRSTUVWXYZ'' ''abcdefghijklmnopqrstuvwxyz'') c of
        Some d \<Rightarrow> d
      | None \<Rightarrow> c)"

definition fold_key :: "string \<Rightarrow> string" where
  "fold_key k = map lower k"

text \<open>
  Storing one member of the object into \<open>req\<close>. The flag is the decoder's saved error:
  a value of the wrong JSON type for its field (or a number that \<open>strconv.ParseFloat\<close>,
  here \<open>pf\<close>, does not accept as a \<open>float64\<close>) sets it and decoding goes on; \<open>null\<close>
  leaves the field as it is; a key that names no field is skipped.
\<close>

fun store_member :: "(string \<Rightarrow> 'f option) \<Rightarrow> string \<times> json \<Rightarrow> 'f PaymentRequest \<times> bool
    \<Rightarrow> 'f PaymentRequest \<times> bool" where
  "store_member pf (k, v) (req, bad) =
     (if fold_key k = ''order_id'' then
        (case v of
           JNull \<Rightarrow> (req, bad)
         | JStr s \<Rightarrow> (req\<lparr>OrderID := s\<rparr>, bad)
         | _ \<Rightarrow> (req, True))
      else if fold_key k = ''amount'' then
        (case v of
           JNull \<Rightarrow> (req, bad)
         | JNum lit \<Rightarrow> (case pf lit of Some x \<Rightarrow> (req\<lparr>Amount := x\<rparr>, bad) | None \<Rightarrow> (req, True))
         | _ \<Rightarrow> (req, True))
      else (req, bad))"

text \<open>Unmarshalling a JSON value into the struct: \<open>null\<close> is a no-op, an object is stored
  member by member in order, every other value is a type error.\<close>

definition unmarshal :: "(string \<Rightarrow> 'f option) \<Rightarrow> json \<Rightarrow> decode_error + ('f::zero) PaymentRequest" where
  "unmarshal pf j =
     (case j of
        JNull \<Rightarrow> Inr zero_request
      | JObj ms \<Rightarrow>
          (case fold (store_member pf) ms (zero_request, False) of
             (req, bad) \<Rightarrow> if bad then Inl UnmarshalTypeError else Inr req)
      | _ \<Rightarrow> Inl UnmarshalTypeError)"

definition Decode :: "(string \<Rightarrow> 'f option) \<Rightarrow> body \<Rightarrow> decode_error + ('f::zero) PaymentRequest" where
  "Decode pf b = (case b of None \<Rightarrow> Inl SyntaxError | Some j \<Rightarrow> unmarshal pf j)"

subsection \<open>Responses\<close>

text \<open>
  The JSON value of a \<open>PaymentResponse\<close>: an object with the members that the struct tags
  name, \<open>status\<close> and \<open>message\<close>, in the order of the fields.
\<close>

definition marshal :: "PaymentResponse \<Rightarrow> json" where
  "marshal resp = JObj [(''status'', JStr (Status resp)), (''message'', JStr (Message resp))]"

text \<open>
  What the handler leaves in the \<open>http.ResponseWriter\<close>: the status code, the headers it
  set and what it wrote. \<open>json.NewEncoder(w).Encode(resp)\<close> writes the JSON value of
  \<open>resp\<close> and a newline (\<open>JsonLine\<close>); \<open>http.Error\<close> writes its message and a newline as
  plain text (\<open>TextLine\<close>).
\<close>

datatype payload = JsonLine json | TextLine string

record response =
  code :: nat
  headers :: "(string \<times> string) list"
  payload :: payload

definition StatusOK :: nat where
  "StatusOK = 200"

definition StatusBadRequest :: nat where
  "StatusBadRequest = 400"

text \<open>\<open>http.Error(w, msg, code)\<close>\<close>

definition http_Error :: "string \<Rightarrow> nat \<Rightarrow> response" where
  "http_Error msg c =
     \<lparr>code = c,
      headers = [(''Content-Type'', ''text/plain; charset=utf-8''),
                 (''X-Content-Type-Options'', ''nosniff'')],
      payload = TextLine msg\<rparr>"

subsection \<open>The handler\<close>

text \<open>
  The only state the handler touches is the standard output, to which \<open>fmt.Printf\<close>
  appends one line per processed request; a line is kept as the two values it formats.
  The first write to \<open>w\<close> without a \<open>WriteHeader\<close> sends status 200.
\<close>

type_synonym 'f stdout = "(string \<times> 'f) list"

definition Processor :: "(string \<Rightarrow> 'f option) \<Rightarrow> body \<Rightarrow> 'f stdout \<Rightarrow> response \<times> ('f::zero) stdout" where
  "Processor pf b out =
     (case Decode pf b of
        Inl err \<Rightarrow> (http_Error ''Invalid request'' StatusBadRequest, out)
      | Inr req \<Rightarrow>
          (let out' = out @ [(OrderID req, Amount req)];
               resp = \<lparr>Status = ''success'', Message = ''Payment processed''\<rparr>
           in (\<lparr>code = StatusOK,
                headers = [(''Content-Type'', ''application/json'')],
                payload = JsonLine (marshal resp)\<rparr>, out')))"

text \<open>The server calls the handler once per request; requests served one after another.\<close>

fun serve :: "(string \<Rightarrow> 'f option) \<Rightarrow> body list \<Rightarrow> 'f stdout \<Rightarrow> response list \<times> ('f::zero) stdout" where
  "serve pf [] out = ([], out)"
| "serve pf (b # bs) out =
     (case Processor pf b out of
        (r, out') \<Rightarrow> (case serve pf bs out' of (rs, out'') \<Rightarrow> (r # rs, out'')))"

text \<open>
  \<open>strconv.ParseFloat\<close> is a parameter of the model. Where an example is evaluated, this
  table of four literals stands for it.
\<close>

definition literals :: "string \<rightharpoonup> rat" where
  "literals = [''42.50'' \<mapsto> 85 / 2, ''10'' \<mapsto> 10, ''0'' \<mapsto> 0, ''-1'' \<mapsto> - 1]"

section \<open>The order model: \<open>models/Order.java\<close>\<close>

text \<open>
  \<open>public class Order extends BaseEntity\<close> with its four private fields. \<open>BaseEntity\<close> is
  declared elsewhere: whatever state it holds is the field \<open>base\<close> of type \<open>'b\<close>. The type
  \<open>'d\<close> stands for Java's \<open>double\<close>. The fields \<open>id\<close> and \<open>total\<close> carry a prime, their
  names being constants of HOL.
\<close>

record LocalDate =
  year :: int
  month :: nat
  dayOfMonth :: nat

record ('b, 'd) Order =
  base :: 'b
  id' :: string
  items :: "string list"
  total' :: 'd
  createdDate :: LocalDate

text \<open>
  The arithmetic of \<open>double\<close> is IEEE 754 and is not defined here: the method is modelled
  over any addition, multiplication and constant \<open>1.0\<close> (to which the \<open>int\<close> literal \<open>1\<close> is
  promoted).
\<close>

record 'd double_ops =
  dadd :: "'d \<Rightarrow> 'd \<Rightarrow> 'd"
  dmul :: "'d \<Rightarrow> 'd \<Rightarrow> 'd"
  done' :: 'd

text \<open>\<open>public double calculateTotalWithTax(double taxRate)\<close>: the value returned and the
  receiver after the call.\<close>

definition calculateTotalWithTax ::
    "'d double_ops \<Rightarrow> 'd \<Rightarrow> ('b, 'd) Order \<Rightarrow> 'd \<times> ('b, 'd) Order" where
  "calculateTotalWithTax ops taxRate this =
     (dmul ops (total' this) (dadd ops (done' ops) taxRate), this)"

section \<open>The idempotency ledger of the specification\<close>

text \<open>
  The specification gives the endpoint an idempotency ledger. The repository has none:
  its handler, \<open>Processor\<close> above, keeps no record of the orders it served. The ledger and
  its one operation follow the specification, sections 3 and 4.2, and say so.
\<close>

text \<open>Modelled from the spec: \<open>IdempotencyLedger\<close>, a mapping from \<open>order_id\<close> to the
  acceptance timestamp; the repository declares no such type. A timestamp is a natural
  number.\<close>

type_synonym ledger = "string \<rightharpoonup> nat"

text \<open>Modelled from the spec: \<open>tryAccept(order_id, now) -> bool\<close> of section 4.2, absent from
  the repository: if \<open>order_id\<close> is recorded it returns false without mutation, if absent it
  records it with timestamp \<open>now\<close> and returns true. The ledger after the call is returned
  with the result.\<close>

definition tryAccept :: "string \<Rightarrow> nat \<Rightarrow> ledger \<Rightarrow> bool \<times> ledger" where
  "tryAccept order_id now L =
     (if order_id \<in> dom L then (False, L) else (True, L(order_id \<mapsto> now)))"

text \<open>
  The two operations of the endpoint, on the ledger and the standard output together. The
  handler is the repository's \<open>Processor\<close>: it is given the request and the standard output,
  and no ledger. \<open>TryAccept\<close> is the operation of the ledger.
\<close>

datatype ledger_op = Handle body | TryAccept string nat

fun step :: "(string \<Rightarrow> 'f option) \<Rightarrow> ledger_op \<Rightarrow> ledger \<times> 'f stdout \<Rightarrow> ledger \<times> ('f::zero) stdout" where
  "step pf (Handle b) (L, out) = (L, snd (Processor pf b out))"
| "step pf (TryAccept order_id now) (L, out) = (snd (tryAccept order_id now L), out)"

text \<open>The states that a sequence of operations goes through, the initial one first.\<close>

fun states ::
    "(string \<Rightarrow> 'f option) \<Rightarrow> ledger_op list \<Rightarrow> ledger \<times> 'f stdout \<Rightarrow> (ledger \<times> ('f::zero) stdout) list" where
  "states pf [] s = [s]"
| "states pf (op # ops) s = s # states pf ops (step pf op s)"

text \<open>How many times an entry for \<open>k\<close> appears from one ledger to the next.\<close>

fun creations :: "string \<Rightarrow> ledger list \<Rightarrow> nat" where
  "creations k (A # B # Ls) =
     (if A k = None \<and> B k \<noteq> None then 1 else 0) + creations k (B # Ls)"
| "creations k Ls = 0"

text \<open>Whether an operation is an acceptance of \<open>k\<close>: a \<open>tryAccept\<close> of \<open>k\<close> that returns
  true.\<close>

fun accepting :: "string \<Rightarrow> ledger_op \<Rightarrow> ledger \<Rightarrow> bool" where
  "accepting k (Handle b) L = False"
| "accepting k (TryAccept order_id now) L = (order_id = k \<and> fst (tryAccept order_id now L))"

text \<open>How many operations of a sequence are acceptances of \<open>k\<close>.\<close>

fun acceptances :: "(string \<Rightarrow> 'f option) \<Rightarrow> string \<Rightarrow> ledger_op list \<Rightarrow> ledger \<times> ('f::zero) stdout \<Rightarrow> nat" where
  "acceptances pf k [] s = 0"
| "acceptances pf k (op # ops) s =
     (if accepting k op (fst s) then 1 else 0) + acceptances pf k ops (step pf op s)"

section \<open>Properties of the payments handler\<close>

lemmas decode_eval =
  Decode_def unmarshal_def zero_request_def fold_key_def lower_def literals_def

lemmas processor_eval =
  Processor_def StatusOK_def StatusBadRequest_def http_Error_def marshal_def

lemma Processor_decoded:
  "Decode pf b = Inr req \<Longrightarrow>
   Processor pf b out =
     (\<lparr>code = 200, headers = [(''Content-Type'', ''application/json'')],
       payload = JsonLine (JObj [(''status'', JStr ''success''), (''message'', JStr ''Payment processed'')])\<rparr>,
      out @ [(OrderID req, Amount req)])"
  by (simp add: Processor_def StatusOK_def marshal_def)

lemma Processor_undecoded:
  "Decode pf b = Inl e \<Longrightarrow>
   Processor pf b out =
     (\<lparr>code = 400,
       headers = [(''Content-Type'', ''text/plain; charset=utf-8''),
                  (''X-Content-Type-Options'', ''nosniff'')],
       payload = TextLine ''Invalid request''\<rparr>, out)"
  by (simp add: Processor_def StatusBadRequest_def http_Error_def)

text \<open>The response does not depend on what was served before.\<close>

lemma Processor_response_stateless: "fst (Processor pf b out) = fst (Processor pf b [])"
  by (cases "Decode pf b") (simp_all add: Processor_undecoded Processor_decoded)

lemma serve_responses: "fst (serve pf bs out) = map (\<lambda>b. fst (Processor pf b [])) bs"
proof (induction bs arbitrary: out)
  case Nil
  show ?case by simp
next
  case (Cons b bs)
  obtain r out' where p: "Processor pf b out = (r, out')"
    by (cases "Processor pf b out")
  obtain rs out'' where s: "serve pf bs out' = (rs, out'')"
    by (cases "serve pf bs out'")
  have "r = fst (Processor pf b [])"
    using p Processor_response_stateless [of pf b out] by simp
  moreover have "rs = map (\<lambda>b. fst (Processor pf b [])) bs"
    using s Cons.IH [of out'] by simp
  ultimately show ?case using p s by simp
qed

text \<open>
  C9. Whenever the body decodes into a \<open>PaymentRequest\<close>, whatever its fields, the handler
  answers with status code 200, the header \<open>Content-Type: application/json\<close> and the JSON
  line of \<open>{status: "success", message: "Payment processed"}\<close>: no field is validated, and
  nothing served before is consulted.
\<close>

theorem Processor_decoded_success:
  assumes "Decode pf b = Inr req"
  shows "fst (Processor pf b out) =
     \<lparr>code = 200, headers = [(''Content-Type'', ''application/json'')],
       payload = JsonLine (JObj [(''status'', JStr ''success''), (''message'', JStr ''Payment processed'')])\<rparr>"
  using assms by (simp add: Processor_decoded)

text \<open>The empty object decodes to the zero request, and an empty \<open>order_id\<close> with a negative
  \<open>amount\<close> decodes too; both get the success response, the second after an order was served.\<close>

theorem Processor_decoded_success_witness:
  "Decode literals (Some (JObj [])) = Inr \<lparr>OrderID = [], Amount = 0\<rparr>
   \<and> fst (Processor literals (Some (JObj [])) []) =
     \<lparr>code = 200, headers = [(''Content-Type'', ''application/json'')],
       payload = JsonLine (JObj [(''status'', JStr ''success''), (''message'', JStr ''Payment processed'')])\<rparr>
   \<and> Decode literals (Some (JObj [(''order_id'', JStr []), (''amount'', JNum ''-1'')]))
       = Inr \<lparr>OrderID = [], Amount = - 1\<rparr>
   \<and> fst (Processor literals (Some (JObj [(''order_id'', JStr []), (''amount'', JNum ''-1'')]))
         [(''ord-1'', 10)]) =
     \<lparr>code = 200, headers = [(''Content-Type'', ''application/json'')],
       payload = JsonLine (JObj [(''status'', JStr ''success''), (''message'', JStr ''Payment processed'')])\<rparr>"
proof -
  have d1: "Decode literals (Some (JObj [])) = Inr \<lparr>OrderID = [], Amount = 0\<rparr>"
    by (simp add: Decode_def unmarshal_def zero_request_def)
  have d2: "Decode literals (Some (JObj [(''order_id'', JStr []), (''amount'', JNum ''-1'')]))
      = Inr \<lparr>OrderID = [], Amount = - 1\<rparr>"
    by (simp add: Decode_def unmarshal_def zero_request_def fold_key_def lower_def literals_def)
  show ?thesis
    using d1 d2 Processor_decoded_success [OF d1, of "[]"]
      Processor_decoded_success [OF d2, of "[(''ord-1'', 10)]"]
    by simp
qed

text \<open>
  C1, as the specification words it: a second call with the same \<open>order_id\<close> returns the
  status \<open>duplicate\<close> and the message \<open>Order already processed\<close>. The handler returns the
  success response again.
\<close>

theorem second_call_not_duplicate:
  "fst (serve literals
         [Some (JObj [(''order_id'', JStr ''ord-1''), (''amount'', JNum ''42.50'')]),
          Some (JObj [(''order_id'', JStr ''ord-1''), (''amount'', JNum ''42.50'')])] []) ! 1
     = \<lparr>code = 200, headers = [(''Content-Type'', ''application/json'')],
        payload = JsonLine (JObj [(''status'', JStr ''success''), (''message'', JStr ''Payment processed'')])\<rparr>
   \<and> payload (fst (serve literals
         [Some (JObj [(''order_id'', JStr ''ord-1''), (''amount'', JNum ''42.50'')]),
          Some (JObj [(''order_id'', JStr ''ord-1''), (''amount'', JNum ''42.50'')])] []) ! 1)
     \<noteq> JsonLine (JObj [(''status'', JStr ''duplicate''), (''message'', JStr ''Order already processed'')])"
  by (simp add: decode_eval processor_eval)

text \<open>
  C1, amended. For every valid request (non-empty \<open>order_id\<close>, \<open>amount > 0\<close>), every call
  after the first call with the same \<open>order_id\<close>, whatever was served in between and
  whatever amount the later call carries, returns the same response as a first call:
  status \<open>success\<close>, message \<open>Payment processed\<close>, code 200.
\<close>

theorem later_call_same_order_success:
  fixes pf :: "string \<Rightarrow> ('f::{zero,ord}) option"
  assumes "Decode pf b1 = Inr r1" and "Decode pf b2 = Inr r2"
    and "OrderID r1 \<noteq> []" and "0 < Amount r1" and "0 < Amount r2"
    and "OrderID r2 = OrderID r1"
  shows "fst (serve pf (b1 # bs @ [b2]) out) ! Suc (length bs) =
     \<lparr>code = 200, headers = [(''Content-Type'', ''application/json'')],
       payload = JsonLine (JObj [(''status'', JStr ''success''), (''message'', JStr ''Payment processed'')])\<rparr>"
proof -
  have "fst (serve pf (b1 # bs @ [b2]) out) ! Suc (length bs) = fst (Processor pf b2 [])"
    unfolding serve_responses by (simp add: nth_append)
  then show ?thesis using assms(2) by (simp add: Processor_decoded)
qed

theorem later_call_same_order_success_witness:
  "Decode literals (Some (JObj [(''order_id'', JStr ''ord-1''), (''amount'', JNum ''42.50'')]))
      = Inr \<lparr>OrderID = ''ord-1'', Amount = 85 / 2\<rparr>
   \<and> Decode literals (Some (JObj [(''order_id'', JStr ''ord-1''), (''amount'', JNum ''10'')]))
      = Inr \<lparr>OrderID = ''ord-1'', Amount = 10\<rparr>
   \<and> fst (serve literals
     (Some (JObj [(''order_id'', JStr ''ord-1''), (''amount'', JNum ''42.50'')])
       # [Some (JObj [(''order_id'', JStr ''ord-2''), (''amount'', JNum ''10'')])]
       @ [Some (JObj [(''order_id'', JStr ''ord-1''), (''amount'', JNum ''10'')])]) [])
     ! Suc (length [Some (JObj [(''order_id'', JStr ''ord-2''), (''amount'', JNum ''10'')])]) =
     \<lparr>code = 200, headers = [(''Content-Type'', ''application/json'')],
       payload = JsonLine (JObj [(''status'', JStr ''success''), (''message'', JStr ''Payment processed'')])\<rparr>"
proof -
  have d1: "Decode literals (Some (JObj [(''order_id'', JStr ''ord-1''), (''amount'', JNum ''42.50'')]))
      = Inr \<lparr>OrderID = ''ord-1'', Amount = 85 / 2\<rparr>"
    by (simp add: decode_eval)
  have d2: "Decode literals (Some (JObj [(''order_id'', JStr ''ord-1''), (''amount'', JNum ''10'')]))
      = Inr \<lparr>OrderID = ''ord-1'', Amount = 10\<rparr>"
    by (simp add: decode_eval)
  have "fst (serve literals
     (Some (JObj [(''order_id'', JStr ''ord-1''), (''amount'', JNum ''42.50'')])
       # [Some (JObj [(''order_id'', JStr ''ord-2''), (''amount'', JNum ''10'')])]
       @ [Some (JObj [(''order_id'', JStr ''ord-1''), (''amount'', JNum ''10'')])]) [])
     ! Suc (length [Some (JObj [(''order_id'', JStr ''ord-2''), (''amount'', JNum ''10'')])]) =
     \<lparr>code = 200, headers = [(''Content-Type'', ''application/json'')],
       payload = JsonLine (JObj [(''status'', JStr ''success''), (''message'', JStr ''Payment processed'')])\<rparr>"
    by (rule later_call_same_order_success [OF d1 d2]) simp_all
  with d1 d2 show ?thesis by (intro conjI)
qed

text \<open>
  C2, as the specification words it: the first call for an \<open>order_id\<close> returns the status
  \<open>accepted\<close>. The status the handler writes is \<open>success\<close>.
\<close>

theorem first_call_not_accepted:
  "fst (Processor literals
         (Some (JObj [(''order_id'', JStr ''ord-1''), (''amount'', JNum ''42.50'')])) [])
     = \<lparr>code = 200, headers = [(''Content-Type'', ''application/json'')],
        payload = JsonLine (JObj [(''status'', JStr ''success''), (''message'', JStr ''Payment processed'')])\<rparr>
   \<and> payload (fst (Processor literals
         (Some (JObj [(''order_id'', JStr ''ord-1''), (''amount'', JNum ''42.50'')])) []))
     \<noteq> JsonLine (JObj [(''status'', JStr ''accepted''), (''message'', JStr ''Payment processed'')])"
  by (simp add: decode_eval processor_eval)

text \<open>
  C2, amended. For every valid request, the first call for its \<open>order_id\<close> (no request
  served earlier decodes to that \<open>order_id\<close>) returns status \<open>success\<close> and message
  \<open>Payment processed\<close>, with code 200.
\<close>

theorem first_call_success:
  fixes pf :: "string \<Rightarrow> ('f::{zero,ord}) option"
  assumes "Decode pf b = Inr req" and "OrderID req \<noteq> []" and "0 < Amount req"
    and "\<forall>b' \<in> set earlier. \<forall>r'. Decode pf b' = Inr r' \<longrightarrow> OrderID r' \<noteq> OrderID req"
  shows "fst (serve pf (earlier @ [b]) out) ! length earlier =
     \<lparr>code = 200, headers = [(''Content-Type'', ''application/json'')],
       payload = JsonLine (JObj [(''status'', JStr ''success''), (''message'', JStr ''Payment processed'')])\<rparr>"
proof -
  have "fst (serve pf (earlier @ [b]) out) ! length earlier = fst (Processor pf b [])"
    unfolding serve_responses by (simp add: nth_append)
  then show ?thesis using assms(1) by (simp add: Processor_decoded)
qed

theorem first_call_success_witness:
  "Decode literals (Some (JObj [(''order_id'', JStr ''ord-1''), (''amount'', JNum ''42.50'')]))
      = Inr \<lparr>OrderID = ''ord-1'', Amount = 85 / 2\<rparr>
   \<and> Decode literals (Some (JObj [(''order_id'', JStr ''ord-2''), (''amount'', JNum ''10'')]))
      = Inr \<lparr>OrderID = ''ord-2'', Amount = 10\<rparr>
   \<and> fst (serve literals
     ([Some (JObj [(''order_id'', JStr ''ord-2''), (''amount'', JNum ''10'')])]
       @ [Some (JObj [(''order_id'', JStr ''ord-1''), (''amount'', JNum ''42.50'')])]) [])
     ! length [Some (JObj [(''order_id'', JStr ''ord-2''), (''amount'', JNum ''10'')])] =
     \<lparr>code = 200, headers = [(''Content-Type'', ''application/json'')],
       payload = JsonLine (JObj [(''status'', JStr ''success''), (''message'', JStr ''Payment processed'')])\<rparr>"
proof -
  have d1: "Decode literals (Some (JObj [(''order_id'', JStr ''ord-1''), (''amount'', JNum ''42.50'')]))
      = Inr \<lparr>OrderID = ''ord-1'', Amount = 85 / 2\<rparr>"
    by (simp add: decode_eval)
  have d2: "Decode literals (Some (JObj [(''order_id'', JStr ''ord-2''), (''amount'', JNum ''10'')]))
      = Inr \<lparr>OrderID = ''ord-2'', Amount = 10\<rparr>"
    by (simp add: decode_eval)
  have "fst (serve literals
     ([Some (JObj [(''order_id'', JStr ''ord-2''), (''amount'', JNum ''10'')])]
       @ [Some (JObj [(''order_id'', JStr ''ord-1''), (''amount'', JNum ''42.50'')])]) [])
     ! length [Some (JObj [(''order_id'', JStr ''ord-2''), (''amount'', JNum ''10'')])] =
     \<lparr>code = 200, headers = [(''Content-Type'', ''application/json'')],
       payload = JsonLine (JObj [(''status'', JStr ''success''), (''message'', JStr ''Payment processed'')])\<rparr>"
    by (rule first_call_success [OF d1]) (simp_all add: d2)
  with d1 d2 show ?thesis by (intro conjI)
qed

text \<open>
  C4, as the specification words it: a malformed body gets an outcome with status
  \<open>rejected\<close> and code 400. The code is 400, but what the handler writes is the plain-text
  line \<open>Invalid request\<close>, not a JSON outcome.
\<close>

theorem malformed_body_not_rejected_outcome:
  "fst (Processor literals None []) =
     \<lparr>code = 400,
       headers = [(''Content-Type'', ''text/plain; charset=utf-8''),
                  (''X-Content-Type-Options'', ''nosniff'')],
       payload = TextLine ''Invalid request''\<rparr>
   \<and> payload (fst (Processor literals None []))
        \<noteq> JsonLine (JObj [(''status'', JStr ''rejected''), (''message'', JStr ''MalformedPayload'')])"
  by (simp add: decode_eval processor_eval)

text \<open>
  C4, amended. For every body that does not decode into a \<open>PaymentRequest\<close> (no JSON value
  can be read, or a value has the wrong type), the handler answers with code 400 and the
  plain-text line \<open>Invalid request\<close>, and changes no state: nothing is printed.
\<close>

theorem undecodable_body_400:
  assumes "Decode pf b = Inl e"
  shows "Processor pf b out =
     (\<lparr>code = 400,
       headers = [(''Content-Type'', ''text/plain; charset=utf-8''),
                  (''X-Content-Type-Options'', ''nosniff'')],
       payload = TextLine ''Invalid request''\<rparr>, out)"
  using assms by (rule Processor_undecoded)

theorem undecodable_body_400_witness:
  "Decode literals None = Inl SyntaxError
   \<and> Processor literals None [(''ord-1'', 10)] =
     (\<lparr>code = 400,
       headers = [(''Content-Type'', ''text/plain; charset=utf-8''),
                  (''X-Content-Type-Options'', ''nosniff'')],
       payload = TextLine ''Invalid request''\<rparr>, [(''ord-1'', 10)])
   \<and> Decode literals (Some (JObj [(''order_id'', JNum ''10'')])) = Inl UnmarshalTypeError
   \<and> Processor literals (Some (JObj [(''order_id'', JNum ''10'')])) [] =
     (\<lparr>code = 400,
       headers = [(''Content-Type'', ''text/plain; charset=utf-8''),
                  (''X-Content-Type-Options'', ''nosniff'')],
       payload = TextLine ''Invalid request''\<rparr>, [])"
proof -
  have d1: "Decode literals None = Inl SyntaxError"
    by (simp add: Decode_def)
  have d2: "Decode literals (Some (JObj [(''order_id'', JNum ''10'')])) = Inl UnmarshalTypeError"
    by (simp add: decode_eval)
  show ?thesis
    using d1 d2 undecodable_body_400 [OF d1, of "[(''ord-1'', 10)]"]
      undecodable_body_400 [OF d2, of "[]"]
    by (intro conjI)
qed

text \<open>
  C5, as the specification words it: a body with an empty \<open>order_id\<close> or an \<open>amount \<le> 0\<close>
  gets an outcome with status \<open>rejected\<close> naming the field. The handler returns the success
  response.
\<close>

theorem empty_order_id_not_rejected:
  "fst (Processor literals
         (Some (JObj [(''order_id'', JStr ''''), (''amount'', JNum ''10'')])) [])
     = \<lparr>code = 200, headers = [(''Content-Type'', ''application/json'')],
        payload = JsonLine (JObj [(''status'', JStr ''success''), (''message'', JStr ''Payment processed'')])\<rparr>
   \<and> payload (fst (Processor literals
         (Some (JObj [(''order_id'', JStr ''''), (''amount'', JNum ''10'')])) []))
     \<noteq> JsonLine (JObj [(''status'', JStr ''rejected''), (''message'', JStr ''InvalidField: order_id'')])"
  by (simp add: decode_eval processor_eval)

text \<open>
  C5, amended. For every body that decodes with an empty \<open>order_id\<close> or an \<open>amount \<le> 0\<close>,
  the handler validates no field: it prints its processing line and answers with code 200,
  status \<open>success\<close> and message \<open>Payment processed\<close>.
\<close>

theorem invalid_fields_success:
  fixes pf :: "string \<Rightarrow> ('f::{zero,ord}) option"
  assumes "Decode pf b = Inr req" and "OrderID req = [] \<or> Amount req \<le> 0"
  shows "Processor pf b out =
     (\<lparr>code = 200, headers = [(''Content-Type'', ''application/json'')],
        payload = JsonLine (JObj [(''status'', JStr ''success''), (''message'', JStr ''Payment processed'')])\<rparr>,
      out @ [(OrderID req, Amount req)])"
  using assms(1) by (rule Processor_decoded)

theorem invalid_fields_success_witness:
  "Decode literals (Some (JObj [(''order_id'', JStr ''''), (''amount'', JNum ''10'')]))
      = Inr \<lparr>OrderID = [], Amount = 10\<rparr>
   \<and> Processor literals (Some (JObj [(''order_id'', JStr ''''), (''amount'', JNum ''10'')])) [] =
     (\<lparr>code = 200, headers = [(''Content-Type'', ''application/json'')],
        payload = JsonLine (JObj [(''status'', JStr ''success''), (''message'', JStr ''Payment processed'')])\<rparr>,
      [([], 10)])
   \<and> Decode literals (Some (JObj [(''order_id'', JStr ''ord-1''), (''amount'', JNum ''-1'')]))
      = Inr \<lparr>OrderID = ''ord-1'', Amount = - 1\<rparr>
   \<and> Processor literals (Some (JObj [(''order_id'', JStr ''ord-1''), (''amount'', JNum ''-1'')])) [] =
     (\<lparr>code = 200, headers = [(''Content-Type'', ''application/json'')],
        payload = JsonLine (JObj [(''status'', JStr ''success''), (''message'', JStr ''Payment processed'')])\<rparr>,
      [(''ord-1'', - 1)])"
proof -
  have d1: "Decode literals (Some (JObj [(''order_id'', JStr ''''), (''amount'', JNum ''10'')]))
      = Inr \<lparr>OrderID = [], Amount = 10\<rparr>"
    by (simp add: decode_eval)
  have d2: "Decode literals (Some (JObj [(''order_id'', JStr ''ord-1''), (''amount'', JNum ''-1'')]))
      = Inr \<lparr>OrderID = ''ord-1'', Amount = - 1\<rparr>"
    by (simp add: decode_eval)
  have v1: "OrderID \<lparr>OrderID = [], Amount = 10 :: rat\<rparr> = []
      \<or> Amount \<lparr>OrderID = [], Amount = 10 :: rat\<rparr> \<le> 0"
    by simp
  have v2: "OrderID \<lparr>OrderID = ''ord-1'', Amount = - 1 :: rat\<rparr> = []
      \<or> Amount \<lparr>OrderID = ''ord-1'', Amount = - 1 :: rat\<rparr> \<le> 0"
    by simp
  show ?thesis
    using d1 d2 invalid_fields_success [OF d1 v1, of "[]"] invalid_fields_success [OF d2 v2, of "[]"]
    by simp
qed



text \<open>
  C3, as the specification words it: of N calls with the same \<open>order_id\<close>, exactly one gets
  the accepted outcome and the others the duplicate outcome. Three such calls get the
  success response each: none is answered \<open>accepted\<close>, none \<open>duplicate\<close>.
\<close>

theorem three_calls_three_successes:
  "fst (serve literals
         [Some (JObj [(''order_id'', JStr ''ord-1''), (''amount'', JNum ''10'')]),
          Some (JObj [(''order_id'', JStr ''ord-1''), (''amount'', JNum ''10'')]),
          Some (JObj [(''order_id'', JStr ''ord-1''), (''amount'', JNum ''10'')])] [])
     = replicate 3
        \<lparr>code = 200, headers = [(''Content-Type'', ''application/json'')],
          payload = JsonLine (JObj [(''status'', JStr ''success''), (''message'', JStr ''Payment processed'')])\<rparr>
   \<and> length (filter
        (\<lambda>r. payload r
           = JsonLine (JObj [(''status'', JStr ''accepted''), (''message'', JStr ''Payment processed'')]))
        (fst (serve literals
         [Some (JObj [(''order_id'', JStr ''ord-1''), (''amount'', JNum ''10'')]),
          Some (JObj [(''order_id'', JStr ''ord-1''), (''amount'', JNum ''10'')]),
          Some (JObj [(''order_id'', JStr ''ord-1''), (''amount'', JNum ''10'')])] []))) \<noteq> 1"
  by (simp add: decode_eval processor_eval numeral_3_eq_3)

text \<open>
  C3, amended. When N calls are issued with the same \<open>order_id\<close>, all with valid payloads,
  every one of the N callers receives the success response, in whatever order the calls
  are served: the reply to a call is the same whatever the other calls have left in the
  state they share, the standard output.
\<close>

theorem same_order_calls_all_succeed:
  fixes pf :: "string \<Rightarrow> ('f::{zero,ord}) option"
  assumes "\<forall>b \<in> set bs. \<exists>r. Decode pf b = Inr r \<and> OrderID r = order_id \<and> 0 < Amount r"
    and "order_id \<noteq> []"
  shows "fst (serve pf bs out) = replicate (length bs)
       \<lparr>code = 200, headers = [(''Content-Type'', ''application/json'')],
         payload = JsonLine (JObj [(''status'', JStr ''success''), (''message'', JStr ''Payment processed'')])\<rparr>
     \<and> (\<forall>b \<in> set bs. \<forall>shared. fst (Processor pf b shared) =
       \<lparr>code = 200, headers = [(''Content-Type'', ''application/json'')],
         payload = JsonLine (JObj [(''status'', JStr ''success''), (''message'', JStr ''Payment processed'')])\<rparr>)"
proof -
  let ?ok = "\<lparr>code = 200, headers = [(''Content-Type'', ''application/json'')],
         payload = JsonLine (JObj [(''status'', JStr ''success''), (''message'', JStr ''Payment processed'')])\<rparr>"
  have each: "fst (Processor pf b shared) = ?ok" if "b \<in> set bs" for b shared
  proof -
    from that assms(1) obtain r where "Decode pf b = Inr r" by blast
    then show ?thesis by (simp add: Processor_decoded)
  qed
  have "map (\<lambda>b. fst (Processor pf b [])) bs = map (\<lambda>b. ?ok) bs"
    by (rule map_cong) (simp_all add: each)
  then have "fst (serve pf bs out) = replicate (length bs) ?ok"
    unfolding serve_responses by (simp add: map_replicate_const)
  then show ?thesis using each by blast
qed

theorem same_order_calls_all_succeed_witness:
  "fst (serve literals
         [Some (JObj [(''order_id'', JStr ''ord-1''), (''amount'', JNum ''42.50'')]),
          Some (JObj [(''order_id'', JStr ''ord-1''), (''amount'', JNum ''10'')]),
          Some (JObj [(''order_id'', JStr ''ord-1''), (''amount'', JNum ''42.50'')])]
         [(''ord-2'', 10)])
     = [\<lparr>code = 200, headers = [(''Content-Type'', ''application/json'')],
          payload = JsonLine (JObj [(''status'', JStr ''success''), (''message'', JStr ''Payment processed'')])\<rparr>,
        \<lparr>code = 200, headers = [(''Content-Type'', ''application/json'')],
          payload = JsonLine (JObj [(''status'', JStr ''success''), (''message'', JStr ''Payment processed'')])\<rparr>,
        \<lparr>code = 200, headers = [(''Content-Type'', ''application/json'')],
          payload = JsonLine (JObj [(''status'', JStr ''success''), (''message'', JStr ''Payment processed'')])\<rparr>]"
proof -
  let ?b1 = "Some (JObj [(''order_id'', JStr ''ord-1''), (''amount'', JNum ''42.50'')])"
  let ?b1' = "Some (JObj [(''order_id'', JStr ''ord-1''), (''amount'', JNum ''10'')])"
  have d1: "Decode literals ?b1 = Inr \<lparr>OrderID = ''ord-1'', Amount = 85 / 2\<rparr>"
    by (simp add: decode_eval)
  have d1': "Decode literals ?b1' = Inr \<lparr>OrderID = ''ord-1'', Amount = 10\<rparr>"
    by (simp add: decode_eval)
  have valid: "\<forall>b \<in> set [?b1, ?b1', ?b1].
      \<exists>r. Decode literals b = Inr r \<and> OrderID r = ''ord-1'' \<and> 0 < Amount r"
    by (simp add: d1 d1')
  have nonempty: "''ord-1'' \<noteq> []" by simp
  show ?thesis
    using same_order_calls_all_succeed [OF valid nonempty, of "[(''ord-2'', 10)]"]
    by (simp add: numeral_3_eq_3)
qed

section \<open>Properties of the specification's ledger\<close>

lemma tryAccept_absent: "L k = None \<Longrightarrow> tryAccept k now L = (True, L(k \<mapsto> now))"
  by (simp add: tryAccept_def dom_def)

lemma tryAccept_present: "L k = Some t \<Longrightarrow> tryAccept k now L = (False, L)"
  by (simp add: tryAccept_def dom_def)

text \<open>
  C6. \<open>tryAccept(order_id, now)\<close>: if \<open>order_id\<close> is absent from the ledger, it is recorded
  with timestamp \<open>now\<close> and the result is true; if it is present, the result is false and
  the ledger is the same.
\<close>

theorem tryAccept_contract:
  "(L order_id = None \<longrightarrow> tryAccept order_id now L = (True, L(order_id \<mapsto> now)))
   \<and> (L order_id \<noteq> None \<longrightarrow> tryAccept order_id now L = (False, L))"
  by (auto simp: tryAccept_absent tryAccept_present)

theorem tryAccept_contract_witness:
  "tryAccept ''ord-1'' 7 Map.empty = (True, [''ord-1'' \<mapsto> 7])
   \<and> tryAccept ''ord-1'' 9 [''ord-1'' \<mapsto> 7] = (False, [''ord-1'' \<mapsto> 7])"
  using tryAccept_contract [of Map.empty "''ord-1''" 7] tryAccept_contract [of "[''ord-1'' \<mapsto> 7]" "''ord-1''" 9]
  by simp

lemma tryAccept_keeps: "L k = Some t \<Longrightarrow> snd (tryAccept j now L) k = Some t"
  by (auto simp: tryAccept_def)

lemma step_keeps: "fst s k = Some t \<Longrightarrow> fst (step pf op s) k = Some t"
  by (cases s; cases op) (simp_all add: tryAccept_keeps)

lemma states_hd: "states pf ops s = s # tl (states pf ops s)"
  by (cases ops) simp_all

lemma states_read: "fst s k = Some t \<Longrightarrow>
    map (\<lambda>s'. fst s' k) (states pf ops s) = replicate (Suc (length ops)) (Some t)"
proof (induction ops arbitrary: s)
  case Nil
  then show ?case by simp
next
  case (Cons op ops)
  have "fst (step pf op s) k = Some t" using Cons.prems by (rule step_keeps)
  then have "map (\<lambda>s'. fst s' k) (states pf ops (step pf op s))
      = replicate (Suc (length ops)) (Some t)"
    by (rule Cons.IH)
  then show ?case using Cons.prems by simp
qed

text \<open>An entry appears in a step exactly when the step is an acceptance.\<close>

lemma step_creates_iff:
  "(fst s k = None \<and> fst (step pf op s) k \<noteq> None) = accepting k op (fst s)"
proof (cases s)
  case (Pair L out)
  show ?thesis
  proof (cases op)
    case (Handle b)
    with Pair show ?thesis by auto
  next
    case (TryAccept j now)
    with Pair show ?thesis by (auto simp: tryAccept_def)
  qed
qed

lemma creations_eq_acceptances:
  "creations k (map fst (states pf ops s)) = acceptances pf k ops s"
proof (induction ops arbitrary: s)
  case Nil
  show ?case by simp
next
  case (Cons op ops)
  let ?s' = "step pf op s"
  have "creations k (map fst (states pf (op # ops) s))
      = creations k (fst s # fst ?s' # map fst (tl (states pf ops ?s')))"
    using states_hd [of pf ops ?s'] by (metis list.simps(9) states.simps(2))
  also have "\<dots> = (if fst s k = None \<and> fst ?s' k \<noteq> None then 1 else 0)
      + creations k (fst ?s' # map fst (tl (states pf ops ?s')))"
    by simp
  also have "fst ?s' # map fst (tl (states pf ops ?s')) = map fst (states pf ops ?s')"
    using states_hd [of pf ops ?s'] by (metis list.simps(9))
  finally show ?case
    using Cons.IH [of ?s'] step_creates_iff [of s k pf op] by simp
qed

lemma acceptances_present: "fst s k = Some t \<Longrightarrow> acceptances pf k ops s = 0"
proof (induction ops arbitrary: s)
  case Nil
  show ?case by simp
next
  case (Cons op ops)
  have "fst (step pf op s) k = Some t" using Cons.prems by (rule step_keeps)
  then have "acceptances pf k ops (step pf op s) = 0" by (rule Cons.IH)
  moreover have "\<not> accepting k op (fst s)"
    using step_creates_iff [of s k pf op] Cons.prems by simp
  ultimately show ?case by simp
qed

lemma acceptances_le_1: "acceptances pf k ops s \<le> 1"
proof (induction ops arbitrary: s)
  case Nil
  show ?case by simp
next
  case (Cons op ops)
  show ?case
  proof (cases "accepting k op (fst s)")
    case True
    then have "fst (step pf op s) k \<noteq> None"
      using step_creates_iff [of s k pf op] by simp
    then obtain t where "fst (step pf op s) k = Some t" by blast
    then have "acceptances pf k ops (step pf op s) = 0" by (rule acceptances_present)
    then show ?thesis by simp
  next
    case False
    then show ?thesis using Cons.IH [of "step pf op s"] by simp
  qed
qed

text \<open>
  C8. Across every sequence of \<open>handle\<close> and \<open>tryAccept\<close> operations, from every ledger:
  an entry of the ledger reads the same, timestamp included, in every later ledger (never
  changed, never removed); the entries for an \<open>order_id\<close> that appear along the sequence
  are as many as its acceptances, at most one, and none when it was recorded before; an
  acceptance happens when the \<open>order_id\<close> is absent and records it with the timestamp of the
  call; a \<open>tryAccept\<close> that is no acceptance and every \<open>handle\<close> leave the ledger as it is.
\<close>

theorem ledger_only_grows:
  "(L k = Some t \<longrightarrow>
      map (\<lambda>s. fst s k) (states pf ops (L, out)) = replicate (Suc (length ops)) (Some t))
   \<and> creations k (map fst (states pf ops (L, out))) = acceptances pf k ops (L, out)
   \<and> acceptances pf k ops (L, out) \<le> 1
   \<and> (L k \<noteq> None \<longrightarrow> acceptances pf k ops (L, out) = 0)
   \<and> (fst (tryAccept k now L) \<longleftrightarrow> L k = None)
   \<and> (fst (tryAccept k now L) \<longrightarrow>
        fst (step pf (TryAccept k now) (L, out)) = L(k \<mapsto> now))
   \<and> (\<not> fst (tryAccept k now L) \<longrightarrow> fst (step pf (TryAccept k now) (L, out)) = L)
   \<and> fst (step pf (Handle b) (L, out)) = L"
proof (intro conjI impI)
  assume "L k = Some t"
  then have "fst (L, out) k = Some t" by simp
  then show "map (\<lambda>s. fst s k) (states pf ops (L, out)) = replicate (Suc (length ops)) (Some t)"
    by (rule states_read)
next
  show "creations k (map fst (states pf ops (L, out))) = acceptances pf k ops (L, out)"
    by (rule creations_eq_acceptances)
next
  show "acceptances pf k ops (L, out) \<le> 1" by (rule acceptances_le_1)
next
  assume "L k \<noteq> None"
  then obtain t' where "fst (L, out) k = Some t'" by auto
  then show "acceptances pf k ops (L, out) = 0" by (rule acceptances_present)
next
  show "fst (tryAccept k now L) \<longleftrightarrow> L k = None"
    by (auto simp: tryAccept_def)
next
  assume "fst (tryAccept k now L)"
  then show "fst (step pf (TryAccept k now) (L, out)) = L(k \<mapsto> now)"
    by (simp add: tryAccept_def split: if_splits)
next
  assume "\<not> fst (tryAccept k now L)"
  then show "fst (step pf (TryAccept k now) (L, out)) = L"
    by (simp add: tryAccept_def split: if_splits)
next
  show "fst (step pf (Handle b) (L, out)) = L" by simp
qed

text \<open>Two acceptances are tried for \<open>ord-1\<close> and one for \<open>ord-2\<close>, between calls of the
  handler, from a ledger that records \<open>ord-0\<close>.\<close>

theorem ledger_only_grows_witness:
  "[''ord-0'' \<mapsto> 1] ''ord-0'' = Some (1::nat)
   \<and> map (\<lambda>s. fst s ''ord-0'')
        (states literals
           [TryAccept ''ord-1'' 5, Handle (Some (JObj [(''order_id'', JStr ''ord-1'')])),
            TryAccept ''ord-1'' 6, TryAccept ''ord-2'' 7, Handle None, TryAccept ''ord-0'' 8]
           ([''ord-0'' \<mapsto> 1], []))
      = [Some 1, Some 1, Some 1, Some 1, Some 1, Some 1, Some 1]
   \<and> map (\<lambda>s. fst s ''ord-1'')
        (states literals
           [TryAccept ''ord-1'' 5, Handle (Some (JObj [(''order_id'', JStr ''ord-1'')])),
            TryAccept ''ord-1'' 6, TryAccept ''ord-2'' 7, Handle None, TryAccept ''ord-0'' 8]
           ([''ord-0'' \<mapsto> 1], []))
      = [None, Some 5, Some 5, Some 5, Some 5, Some 5, Some 5]
   \<and> creations ''ord-1'' (map fst
        (states literals
           [TryAccept ''ord-1'' 5, Handle (Some (JObj [(''order_id'', JStr ''ord-1'')])),
            TryAccept ''ord-1'' 6, TryAccept ''ord-2'' 7, Handle None, TryAccept ''ord-0'' 8]
           ([''ord-0'' \<mapsto> 1], []))) = 1
   \<and> acceptances literals ''ord-1''
           [TryAccept ''ord-1'' 5, Handle (Some (JObj [(''order_id'', JStr ''ord-1'')])),
            TryAccept ''ord-1'' 6, TryAccept ''ord-2'' 7, Handle None, TryAccept ''ord-0'' 8]
           ([''ord-0'' \<mapsto> 1], []) = 1
   \<and> acceptances literals ''ord-0''
           [TryAccept ''ord-1'' 5, Handle (Some (JObj [(''order_id'', JStr ''ord-1'')])),
            TryAccept ''ord-1'' 6, TryAccept ''ord-2'' 7, Handle None, TryAccept ''ord-0'' 8]
           ([''ord-0'' \<mapsto> 1], []) = 0
   \<and> fst (tryAccept ''ord-1'' 5 [''ord-0'' \<mapsto> 1])
   \<and> fst (step literals (TryAccept ''ord-1'' 5) ([''ord-0'' \<mapsto> 1], []))
        = [''ord-0'' \<mapsto> 1, ''ord-1'' \<mapsto> 5]
   \<and> \<not> fst (tryAccept ''ord-0'' 8 [''ord-0'' \<mapsto> 1])
   \<and> fst (step literals (TryAccept ''ord-0'' 8) ([''ord-0'' \<mapsto> 1], [])) = [''ord-0'' \<mapsto> 1]"
proof -
  let ?ops = "[TryAccept ''ord-1'' 5, Handle (Some (JObj [(''order_id'', JStr ''ord-1'')])),
               TryAccept ''ord-1'' 6, TryAccept ''ord-2'' 7, Handle None, TryAccept ''ord-0'' 8]"
  let ?L = "[''ord-0'' \<mapsto> 1 :: nat]"
  let ?s = "(?L, [] :: rat stdout)"
  note g0 = ledger_only_grows [where L = ?L and k = "''ord-0''" and t = 1 and pf = literals
      and ops = ?ops and out = "[]" and now = 8 and b = None]
  note g1 = ledger_only_grows [where L = ?L and k = "''ord-1''" and t = 1 and pf = literals
      and ops = ?ops and out = "[]" and now = 5 and b = None]
  have a: "?L ''ord-0'' = Some 1" by simp
  have n: "?L ''ord-1'' = None" by simp
  from g0 a have "map (\<lambda>s. fst s ''ord-0'') (states literals ?ops ?s)
      = replicate (Suc (length ?ops)) (Some 1)"
    by blast
  then have b: "map (\<lambda>s. fst s ''ord-0'') (states literals ?ops ?s)
      = [Some 1, Some 1, Some 1, Some 1, Some 1, Some 1, Some 1]"
    by (simp add: numeral_eq_Suc)
  have c: "map (\<lambda>s. fst s ''ord-1'') (states literals ?ops ?s)
      = [None, Some 5, Some 5, Some 5, Some 5, Some 5, Some 5]"
    by (simp add: tryAccept_def)
  have d: "acceptances literals ''ord-1'' ?ops ?s = 1"
    by (simp add: tryAccept_def)
  have "creations ''ord-1'' (map fst (states literals ?ops ?s))
      = acceptances literals ''ord-1'' ?ops ?s"
    using g1 by blast
  with d have e: "creations ''ord-1'' (map fst (states literals ?ops ?s)) = 1"
    by (simp only:)
  have "?L ''ord-0'' \<noteq> None" by simp
  with g0 have f: "acceptances literals ''ord-0'' ?ops ?s = 0" by blast
  from g1 n have h: "fst (tryAccept ''ord-1'' 5 ?L)" by blast
  with g1 have i: "fst (step literals (TryAccept ''ord-1'' 5) ?s) = ?L(''ord-1'' \<mapsto> 5)"
    by blast
  from g0 a have j: "\<not> fst (tryAccept ''ord-0'' 8 ?L)" by (metis option.distinct(1))
  with g0 have k: "fst (step literals (TryAccept ''ord-0'' 8) ?s) = ?L" by blast
  from a b c e d f h i j k show ?thesis by (intro conjI)
qed

section \<open>Properties of the order model\<close>

text \<open>
  C10. For every order and every tax rate, \<open>calculateTotalWithTax(taxRate)\<close> returns
  \<open>total * (1 + taxRate)\<close>, in the arithmetic of \<open>double\<close>, and the order after the call is
  the order before it, field by field.
\<close>

theorem calculateTotalWithTax_frame:
  "fst (calculateTotalWithTax ops taxRate this)
     = dmul ops (total' this) (dadd ops (done' ops) taxRate)
   \<and> snd (calculateTotalWithTax ops taxRate this) = this
   \<and> base (snd (calculateTotalWithTax ops taxRate this)) = base this
   \<and> id' (snd (calculateTotalWithTax ops taxRate this)) = id' this
   \<and> items (snd (calculateTotalWithTax ops taxRate this)) = items this
   \<and> total' (snd (calculateTotalWithTax ops taxRate this)) = total' this
   \<and> createdDate (snd (calculateTotalWithTax ops taxRate this)) = createdDate this"
  by (simp add: calculateTotalWithTax_def)

end
